theory Spec2Isabelle
  imports Complex_Main "HOL-Library.Multiset"
begin

section \<open>The catalog view of \<open>ProductSection2.tsx\<close>\<close>

text \<open>
  The component \<open>ProductSection2Inner\<close> keeps the fetched products and categories and a view
  state (selected category, search text, sort key, price bounds, page) in React state cells,
  re-derives the filtered list in an effect and renders category sections, the
  "All Products" grid and a pager. The development below embeds its state as a record, its
  effects and handlers as functions from state to state, and the values computed during
  rendering as functions of the state.
\<close>

subsection \<open>Numbers\<close>

text \<open>
  A JavaScript number is \<open>NaN\<close>, an infinity or a finite value. Finite values are kept as
  exact rationals: the rounding of IEEE doubles is not modelled, and neither is the sign of
  zero, which no operation of the component observes.
\<close>

datatype jsnum = NaN | NInf | Fin rat | PInf

text \<open>\<open>a <= b\<close>; every comparison with \<open>NaN\<close> is false.\<close>

fun num_le :: "jsnum \<Rightarrow> jsnum \<Rightarrow> bool" where
  "num_le NaN _ = False"
| "num_le _ NaN = False"
| "num_le NInf _ = True"
| "num_le _ PInf = True"
| "num_le (Fin a) (Fin b) = (a \<le> b)"
| "num_le _ _ = False"

text \<open>\<open>a >= b\<close>.\<close>

definition num_ge :: "jsnum \<Rightarrow> jsnum \<Rightarrow> bool" where
  "num_ge a b = num_le b a"

text \<open>\<open>a - b\<close>; the difference of two equal infinities is \<open>NaN\<close>.\<close>

fun num_sub :: "jsnum \<Rightarrow> jsnum \<Rightarrow> jsnum" where
  "num_sub NaN _ = NaN"
| "num_sub _ NaN = NaN"
| "num_sub (Fin a) (Fin b) = Fin (a - b)"
| "num_sub (Fin a) PInf = NInf"
| "num_sub (Fin a) NInf = PInf"
| "num_sub PInf PInf = NaN"
| "num_sub PInf _ = PInf"
| "num_sub NInf NInf = NaN"
| "num_sub NInf _ = NInf"

text \<open>\<open>x || d\<close> on numbers: \<open>NaN\<close> and zero are falsy.\<close>

definition num_or :: "jsnum \<Rightarrow> jsnum \<Rightarrow> jsnum" where
  "num_or x d = (if x = NaN \<or> x = Fin 0 then d else x)"

fun Math_floor :: "jsnum \<Rightarrow> jsnum" where
  "Math_floor (Fin r) = Fin (of_int \<lfloor>r\<rfloor>)"
| "Math_floor x = x"

fun Math_ceil :: "jsnum \<Rightarrow> jsnum" where
  "Math_ceil (Fin r) = Fin (of_int \<lceil>r\<rceil>)"
| "Math_ceil x = x"

text \<open>
  \<open>Math.min(...xs)\<close> and \<open>Math.max(...xs)\<close>: \<open>NaN\<close> as soon as one argument is \<open>NaN\<close>,
  and the neutral infinity for no argument.
\<close>

definition num_min :: "jsnum \<Rightarrow> jsnum \<Rightarrow> jsnum" where
  "num_min a b = (if a = NaN \<or> b = NaN then NaN else if num_le a b then a else b)"

definition num_max :: "jsnum \<Rightarrow> jsnum \<Rightarrow> jsnum" where
  "num_max a b = (if a = NaN \<or> b = NaN then NaN else if num_le a b then b else a)"

definition Math_min :: "jsnum list \<Rightarrow> jsnum" where
  "Math_min xs = foldr num_min xs PInf"

definition Math_max :: "jsnum list \<Rightarrow> jsnum" where
  "Math_max xs = foldr num_max xs NInf"

subsection \<open>Strings\<close>

text \<open>
  Strings are lists of characters. The case mapping, the white space and the number
  syntax modelled are those of ASCII text.
\<close>

definition lowerChar :: "char \<Rightarrow> char" where
  "lowerChar c =
     (case map_of (zip ''ABCDEFGHIJKLMNOPQRSTUVWXYZ'' ''abcdefghijklmnopqrstuvwxyz'') c of
        None \<Rightarrow> c | Some l \<Rightarrow> l)"

definition toLowerCase :: "string \<Rightarrow> string" where
  "toLowerCase s = map lowerChar s"

definition isWhiteSpace :: "char \<Rightarrow> bool" where
  "isWhiteSpace c = (c \<in> set [CHR '' '', CHR 0x09, CHR 0x0A, CHR 0x0B, CHR 0x0C, CHR 0x0D])"

definition trimStart :: "string \<Rightarrow> string" where
  "trimStart s = dropWhile isWhiteSpace s"

definition trim :: "string \<Rightarrow> string" where
  "trim s = rev (dropWhile isWhiteSpace (rev (dropWhile isWhiteSpace s)))"

fun startsWith :: "string \<Rightarrow> string \<Rightarrow> bool" where
  "startsWith _ [] = True"
| "startsWith [] (q # qs) = False"
| "startsWith (c # cs) (q # qs) = (c = q \<and> startsWith cs qs)"

text \<open>\<open>s.includes(q)\<close>: \<open>q\<close> occurs in \<open>s\<close> as a contiguous substring.\<close>

fun includes_str :: "string \<Rightarrow> string \<Rightarrow> bool" where
  "includes_str [] q = (q = [])"
| "includes_str (c # cs) q = (startsWith (c # cs) q \<or> includes_str cs q)"

subsection \<open>\<open>parseFloat\<close>\<close>

text \<open>
  \<open>parseFloat\<close> skips leading white space and reads the longest prefix that is a decimal
  literal: an optional sign, then \<open>Infinity\<close> or digits with an optional fraction and an
  optional exponent. Without such a prefix the result is \<open>NaN\<close>.
\<close>

definition digitVal :: "char \<Rightarrow> nat option" where
  "digitVal c = map_of (zip ''0123456789'' [0 ..< 10]) c"

definition isDigit :: "char \<Rightarrow> bool" where
  "isDigit c = (digitVal c \<noteq> None)"

text \<open>The value of a digit string read as a natural number.\<close>

definition digitsVal :: "string \<Rightarrow> nat" where
  "digitsVal ds =
     foldl (\<lambda>acc c. 10 * acc + (case digitVal c of None \<Rightarrow> 0 | Some d \<Rightarrow> d)) 0 ds"

text \<open>The exponent part \<open>e[+-]digits\<close> at the head of a string, 0 when there is none.\<close>

definition exponentPart :: "string \<Rightarrow> int" where
  "exponentPart s =
     (case s of
        [] \<Rightarrow> 0
      | c # r \<Rightarrow>
          if c = CHR ''e'' \<or> c = CHR ''E'' then
            (case r of
               [] \<Rightarrow> 0
             | d # r' \<Rightarrow>
                 if d = CHR ''-'' then - int (digitsVal (takeWhile isDigit r'))
                 else if d = CHR ''+'' then int (digitsVal (takeWhile isDigit r'))
                 else int (digitsVal (takeWhile isDigit r)))
          else 0)"

definition scale10 :: "rat \<Rightarrow> int \<Rightarrow> rat" where
  "scale10 x e = (if 0 \<le> e then x * 10 ^ nat e else x / 10 ^ nat (- e))"

text \<open>An unsigned decimal literal at the head of a string.\<close>

definition unsignedLiteral :: "string \<Rightarrow> jsnum" where
  "unsignedLiteral s =
     (if startsWith s ''Infinity'' then PInf
      else
        let ip = takeWhile isDigit s;
            r1 = dropWhile isDigit s;
            hasDot = (r1 \<noteq> [] \<and> hd r1 = CHR ''.'');
            fp = (if hasDot then takeWhile isDigit (tl r1) else []);
            r2 = (if hasDot then dropWhile isDigit (tl r1) else r1)
        in if ip = [] \<and> fp = [] then NaN
           else Fin (scale10
                  (of_nat (digitsVal ip) + of_nat (digitsVal fp) / 10 ^ length fp)
                  (exponentPart r2)))"

fun num_neg :: "jsnum \<Rightarrow> jsnum" where
  "num_neg (Fin r) = Fin (- r)"
| "num_neg PInf = NInf"
| "num_neg NInf = PInf"
| "num_neg NaN = NaN"

definition parseFloat :: "string \<Rightarrow> jsnum" where
  "parseFloat s =
     (case trimStart s of
        [] \<Rightarrow> NaN
      | c # r \<Rightarrow>
          if c = CHR ''-'' then num_neg (unsignedLiteral r)
          else if c = CHR ''+'' then unsignedLiteral r
          else unsignedLiteral (c # r))"

subsection \<open>Arrays\<close>

text \<open>
  \<open>xs.slice(start, stop)\<close> on integer arguments: a negative index counts from the end,
  both indices are clamped to the array, and an empty range yields the empty array. There is
  no failing case.
\<close>

definition js_slice :: "int \<Rightarrow> int \<Rightarrow> 'a list \<Rightarrow> 'a list" where
  "js_slice start stop xs =
     (let len = int (length xs);
          k = (if start < 0 then max (len + start) 0 else min start len);
          final = (if stop < 0 then max (len + stop) 0 else min stop len)
      in take (nat (max (final - k) 0)) (drop (nat k) xs))"

text \<open>
  \<open>xs.sort(cmp)\<close> is a stable sort: \<open>x\<close> moves behind \<open>y\<close> only where \<open>cmp x y\<close> is
  positive, and a comparator result of \<open>NaN\<close> counts as 0. For a comparator that orders the
  elements consistently every stable sort gives the list computed here.
\<close>

fun num_pos :: "jsnum \<Rightarrow> bool" where
  "num_pos PInf = True"
| "num_pos (Fin r) = (0 < r)"
| "num_pos _ = False"

fun insert_sorted :: "('a \<Rightarrow> 'a \<Rightarrow> jsnum) \<Rightarrow> 'a \<Rightarrow> 'a list \<Rightarrow> 'a list" where
  "insert_sorted cmp x [] = [x]"
| "insert_sorted cmp x (y # ys) =
     (if num_pos (cmp x y) then y # insert_sorted cmp x ys else x # y # ys)"

definition js_sort :: "('a \<Rightarrow> 'a \<Rightarrow> jsnum) \<Rightarrow> 'a list \<Rightarrow> 'a list" where
  "js_sort cmp xs = foldr (insert_sorted cmp) xs []"

subsection \<open>Data model\<close>

text \<open>
  The interfaces \<open>Product\<close> and \<open>Category\<close>. The fields \<open>_id\<close> and \<open>name\<close> of the two
  interfaces are \<open>p_id\<close>, \<open>p_name\<close> and \<open>c_id\<close>, \<open>c_name\<close>; \<open>show\<close> is \<open>c_show\<close>. An
  optional field is an option. The product fields that the component never reads
  (\<open>stockNumber\<close>, \<open>showProduct\<close>, the expiration and variation fields) are left out.
\<close>

record Product =
  p_id :: string
  p_name :: string
  brand :: "string option"
  category :: string
  sku :: "string option"
  costPrice :: "string option"
  regularPrice :: "string option"
  salePrice :: string
  stockStatus :: "string option"
  description :: "string option"
  images :: "string list option"

record Category =
  c_id :: string
  c_name :: string
  img :: "string option"
  banner :: "string option"
  c_show :: "bool option"

text \<open>
  The state cells of \<open>ProductSection2Inner\<close>, without the two presentational toggles
  \<open>showFilters\<close> and \<open>categoryDropdownOpen\<close>. \<open>categoryMap\<close> is the \<open>Record<string, string>\<close>
  from category identifier to name, a partial map: a category identifier is taken not to be
  the name of a member that every JavaScript object inherits. \<open>pending\<close> is not a cell
  of the component: it counts the requests of \<open>fetchData\<close> that have been issued and not
  yet settled.
\<close>

record State =
  products :: "Product list"
  filteredProducts :: "Product list"
  categories :: "Category list"
  categoryMap :: "string \<rightharpoonup> string"
  selectedCategory :: string
  sortBy :: string
  loading :: bool
  error :: "string option"
  searchQuery :: string
  priceRange :: "jsnum \<times> jsnum"
  currentPage :: int
  pending :: nat

definition itemsPerPage :: int where
  "itemsPerPage = 8"

text \<open>\<open>parseFloat(p.salePrice) || 0\<close>\<close>

definition parsedPrice :: "Product \<Rightarrow> jsnum" where
  "parsedPrice p = num_or (parseFloat (salePrice p)) (Fin 0)"

definition getPriceRange :: "Product list \<Rightarrow> jsnum \<times> jsnum" where
  "getPriceRange ps =
     (if length ps = 0 then (Fin 0, Fin 10000)
      else let prices = map parsedPrice ps
           in (Math_floor (Math_min prices), Math_ceil (Math_max prices)))"

subsection \<open>The effect "Apply filters and sorting"\<close>

text \<open>\<open>categoryMap[product.category]?.toLowerCase() === selectedCategory.toLowerCase()\<close>\<close>

definition categoryMatches :: "(string \<rightharpoonup> string) \<Rightarrow> string \<Rightarrow> Product \<Rightarrow> bool" where
  "categoryMatches cm sel product =
     (case cm (category product) of
        None \<Rightarrow> False
      | Some categoryName \<Rightarrow> toLowerCase categoryName = toLowerCase sel)"

text \<open>
  The predicate of the search filter: some of name, category name, description and brand
  contains the query; a missing field never matches.
\<close>

definition searchMatches :: "(string \<rightharpoonup> string) \<Rightarrow> string \<Rightarrow> Product \<Rightarrow> bool" where
  "searchMatches cm query product =
     (let categoryName = (case cm (category product) of None \<Rightarrow> [] | Some n \<Rightarrow> n)
      in list_ex
           (\<lambda>field. case field of
                      None \<Rightarrow> False
                    | Some f \<Rightarrow> includes_str (toLowerCase f) query)
           [Some (p_name product), Some categoryName, description product, brand product])"

definition priceInRange :: "jsnum \<times> jsnum \<Rightarrow> Product \<Rightarrow> bool" where
  "priceInRange pr product =
     (let price = parsedPrice product
      in num_ge price (fst pr) \<and> num_le price (snd pr))"

text \<open>
  The comparator of the sort. \<open>localeCompare\<close> depends on the collation of the host, which
  the component does not fix: it is the parameter \<open>lc\<close>.
\<close>

definition sortCompare ::
  "(string \<Rightarrow> string \<Rightarrow> jsnum) \<Rightarrow> string \<Rightarrow> Product \<Rightarrow> Product \<Rightarrow> jsnum" where
  "sortCompare lc sb a b =
     (let priceA = parsedPrice a; priceB = parsedPrice b
      in if sb = ''price-asc'' then num_sub priceA priceB
         else if sb = ''price-desc'' then num_sub priceB priceA
         else if sb = ''name-asc'' then lc (p_name a) (p_name b)
         else if sb = ''name-desc'' then lc (p_name b) (p_name a)
         else Fin 0)"

text \<open>
  What a collation guarantees of its comparison: where it puts \<open>x\<close> after \<open>y\<close> it does not
  put \<open>y\<close> after \<open>x\<close>, and "not after" is transitive. Statements about the order of a
  sort by name assume it of \<open>lc\<close>.
\<close>

definition consistentCollation :: "(string \<Rightarrow> string \<Rightarrow> jsnum) \<Rightarrow> bool" where
  "consistentCollation lc =
     ((\<forall>x y. num_pos (lc x y) \<longrightarrow> \<not> num_pos (lc y x)) \<and>
      (\<forall>x y z. \<not> num_pos (lc x y) \<longrightarrow> \<not> num_pos (lc y z) \<longrightarrow> \<not> num_pos (lc x z)))"

text \<open>The four stages on a non-empty product list: category, search, price, sort.\<close>

definition filterPipeline :: "(string \<Rightarrow> string \<Rightarrow> jsnum) \<Rightarrow> State \<Rightarrow> Product list" where
  "filterPipeline lc st =
     (let r0 = products st;
          r1 = (if selectedCategory st \<noteq> ''All''
                then filter (categoryMatches (categoryMap st) (selectedCategory st)) r0
                else r0);
          r2 = (if trim (searchQuery st) \<noteq> []
                then filter (searchMatches (categoryMap st) (trim (toLowerCase (searchQuery st)))) r1
                else r1);
          r3 = filter (priceInRange (priceRange st)) r2
      in js_sort (sortCompare lc (sortBy st)) r3)"

definition applyFiltersEffect :: "(string \<Rightarrow> string \<Rightarrow> jsnum) \<Rightarrow> State \<Rightarrow> State" where
  "applyFiltersEffect lc st =
     (if length (products st) = 0 then st\<lparr>filteredProducts := []\<rparr>
      else st\<lparr>filteredProducts := filterPipeline lc st, currentPage := 1\<rparr>)"

subsection \<open>Fetching\<close>

text \<open>
  \<open>fetchData\<close> suspends at its two requests. Its part before them is \<open>fetchData_start\<close>;
  its part after them, on the outcome of the requests, is \<open>fetchData_settle\<close>. A resolved
  outcome carries the \<open>data\<close> of the two responses, \<open>None\<close> for a missing body, which
  \<open>|| []\<close> replaces by the empty array. The state cells written while settling include
  \<open>products\<close>, so the filter effect runs afterwards.
\<close>

datatype fetchResult =
  Resolved "Product list option" "Category list option"
| Rejected

definition buildCatMap :: "Category list \<Rightarrow> (string \<rightharpoonup> string)" where
  "buildCatMap cats = foldl (\<lambda>catMap cat. catMap(c_id cat \<mapsto> c_name cat)) Map.empty cats"

definition fetchData_start :: "State \<Rightarrow> State" where
  "fetchData_start st = st\<lparr>loading := True, error := None, pending := pending st + 1\<rparr>"

fun fetchData_settle :: "fetchResult \<Rightarrow> State \<Rightarrow> State" where
  "fetchData_settle (Resolved pdata cdata) st =
     (let fetchedProducts = (case pdata of None \<Rightarrow> [] | Some d \<Rightarrow> d);
          fetchedCategories = (case cdata of None \<Rightarrow> [] | Some d \<Rightarrow> d)
      in st\<lparr>products := fetchedProducts,
            categories := fetchedCategories,
            categoryMap := buildCatMap fetchedCategories,
            priceRange := getPriceRange fetchedProducts,
            loading := False,
            pending := pending st - 1\<rparr>)"
| "fetchData_settle Rejected st =
     st\<lparr>error := Some ''Failed to load products. Please try again later.'',
        products := [],
        loading := False,
        pending := pending st - 1\<rparr>"

definition fetchSettled :: "(string \<Rightarrow> string \<Rightarrow> jsnum) \<Rightarrow> fetchResult \<Rightarrow> State \<Rightarrow> State" where
  "fetchSettled lc r st = applyFiltersEffect lc (fetchData_settle r st)"

subsection \<open>Values computed while rendering\<close>

definition indexOfLastItem :: "State \<Rightarrow> int" where
  "indexOfLastItem st = currentPage st * itemsPerPage"

definition indexOfFirstItem :: "State \<Rightarrow> int" where
  "indexOfFirstItem st = indexOfLastItem st - itemsPerPage"

text \<open>\<open>Math.ceil(filteredProducts.length / itemsPerPage)\<close>\<close>

definition totalPages :: "State \<Rightarrow> int" where
  "totalPages st = \<lceil>rat_of_nat (length (filteredProducts st)) / rat_of_int itemsPerPage\<rceil>"

definition visibleCategories :: "State \<Rightarrow> Category list" where
  "visibleCategories st = filter (\<lambda>cat. c_show cat \<noteq> Some False) (categories st)"

definition showOnlyAllProducts :: "State \<Rightarrow> bool" where
  "showOnlyAllProducts st = (trim (searchQuery st) \<noteq> [])"

definition allProductsFiltered :: "State \<Rightarrow> Product list" where
  "allProductsFiltered st =
     filter (\<lambda>product.
        if selectedCategory st = ''All'' then True
        else categoryMatches (categoryMap st) (selectedCategory st) product)
       (products st)"

text \<open>
  The category sections of the home page: one per visible category, \<open>null\<close> (rendered as
  nothing) for a category without products, and none at all while a search is active.
\<close>

definition categoryProducts :: "State \<Rightarrow> Category \<Rightarrow> Product list" where
  "categoryProducts st cat =
     js_slice 0 8 (filter (\<lambda>product. c_id cat = category product) (products st))"

definition categorySections :: "State \<Rightarrow> (Category \<times> Product list) list" where
  "categorySections st =
     (if showOnlyAllProducts st then []
      else List.map_filter
             (\<lambda>cat. if length (categoryProducts st cat) = 0 then None
                    else Some (cat, categoryProducts st cat))
             (visibleCategories st))"

text \<open>The options of the category dropdown.\<close>

definition categoryOptions :: "State \<Rightarrow> string list" where
  "categoryOptions st = ''All'' # map c_name (categories st)"

text \<open>The "All Products" grid: the cards of the current page, or the empty-state panel.\<close>

datatype grid = Cards "Product list" | NoProductsFound

definition allProductsGrid :: "State \<Rightarrow> grid" where
  "allProductsGrid st =
     (if length (allProductsFiltered st) > 0
      then Cards (js_slice (indexOfFirstItem st) (indexOfLastItem st) (allProductsFiltered st))
      else NoProductsFound)"

definition paginationShown :: "State \<Rightarrow> bool" where
  "paginationShown st = (length (allProductsFiltered st) > 0 \<and> totalPages st > 1)"

text \<open>The page number on the \<open>i\<close>-th numbered button of the pager.\<close>

definition pageButton :: "State \<Rightarrow> int \<Rightarrow> int" where
  "pageButton st i =
     (if totalPages st \<le> 5 then i + 1
      else if currentPage st \<le> 3 then i + 1
      else if currentPage st \<ge> totalPages st - 2 then totalPages st - 4 + i
      else currentPage st - 2 + i)"

subsection \<open>Handlers\<close>

text \<open>
  A handler writes state cells; after the following render the effects whose dependencies
  changed run, the fetch effect (dependencies \<open>searchQuery\<close> and \<open>publicBaseUrl\<close>, the
  latter taken as fixed) before the filter effect
  (dependencies \<open>products\<close>, \<open>selectedCategory\<close>, \<open>sortBy\<close>, \<open>searchQuery\<close>, \<open>priceRange\<close>,
  \<open>categoryMap\<close>). A string cell changes when it receives a different string, an array cell
  whenever it is written, since every write stores a fresh array. Each function below is a
  handler together with the effects it triggers.
\<close>

text \<open>The effect on \<open>searchParams\<close>: \<open>setSearchQuery(searchParams?.get("q") || "")\<close>.\<close>

definition searchParamsEffect :: "(string \<Rightarrow> string \<Rightarrow> jsnum) \<Rightarrow> string \<Rightarrow> State \<Rightarrow> State" where
  "searchParamsEffect lc query st =
     (if query = searchQuery st then st
      else applyFiltersEffect lc (fetchData_start (st\<lparr>searchQuery := query\<rparr>)))"

text \<open>The \<open>onClick\<close> of an option of the category dropdown.\<close>

definition selectCategoryOption :: "(string \<Rightarrow> string \<Rightarrow> jsnum) \<Rightarrow> string \<Rightarrow> State \<Rightarrow> State" where
  "selectCategoryOption lc c st =
     (if c = selectedCategory st then st
      else applyFiltersEffect lc (st\<lparr>selectedCategory := c\<rparr>))"

definition handleCategoryBannerClick ::
  "(string \<Rightarrow> string \<Rightarrow> jsnum) \<Rightarrow> string \<Rightarrow> State \<Rightarrow> State" where
  "handleCategoryBannerClick lc categoryName st =
     (let st' = st\<lparr>selectedCategory := categoryName, currentPage := 1\<rparr>
      in if categoryName = selectedCategory st then st' else applyFiltersEffect lc st')"

text \<open>The \<open>onChange\<close> of the sort select.\<close>

definition changeSortBy :: "(string \<Rightarrow> string \<Rightarrow> jsnum) \<Rightarrow> string \<Rightarrow> State \<Rightarrow> State" where
  "changeSortBy lc v st =
     (if v = sortBy st then st else applyFiltersEffect lc (st\<lparr>sortBy := v\<rparr>))"

text \<open>
  The \<open>onChange\<close> of the price slider; \<open>v\<close> is \<open>parseInt(e.target.value)\<close>, the slider's
  position.
\<close>

definition changePriceSlider :: "(string \<Rightarrow> string \<Rightarrow> jsnum) \<Rightarrow> int \<Rightarrow> State \<Rightarrow> State" where
  "changePriceSlider lc v st =
     applyFiltersEffect lc (st\<lparr>priceRange := (fst (priceRange st), Fin (of_int v))\<rparr>)"

definition resetFilters :: "(string \<Rightarrow> string \<Rightarrow> jsnum) \<Rightarrow> State \<Rightarrow> State" where
  "resetFilters lc st =
     (let st' = st\<lparr>selectedCategory := ''All'',
                   searchQuery := [],
                   sortBy := ''price-asc'',
                   currentPage := 1,
                   priceRange := getPriceRange (products st)\<rparr>
      in applyFiltersEffect lc (if searchQuery st \<noteq> [] then fetchData_start st' else st'))"

text \<open>The three kinds of pager buttons.\<close>

definition prevPage :: "State \<Rightarrow> State" where
  "prevPage st = st\<lparr>currentPage := max (currentPage st - 1) 1\<rparr>"

definition nextPage :: "State \<Rightarrow> State" where
  "nextPage st = st\<lparr>currentPage := min (currentPage st + 1) (totalPages st)\<rparr>"

definition gotoPage :: "int \<Rightarrow> State \<Rightarrow> State" where
  "gotoPage i st = st\<lparr>currentPage := pageButton st i\<rparr>"

subsection \<open>The component as a transition system\<close>

text \<open>The initial values of the state cells, and the state after the effects of the mount.\<close>

definition initialState :: State where
  "initialState =
     \<lparr>products = [], filteredProducts = [], categories = [], categoryMap = Map.empty,
      selectedCategory = ''All'', sortBy = ''price-asc'', loading = True, error = None,
      searchQuery = [], priceRange = (Fin 0, Fin 10000), currentPage = 1, pending = 0\<rparr>"

definition mounted :: "(string \<Rightarrow> string \<Rightarrow> jsnum) \<Rightarrow> State" where
  "mounted lc = applyFiltersEffect lc (fetchData_start initialState)"

datatype event =
  SearchParams string
| FetchSettles fetchResult
| SelectCategory string
| BannerClick string
| SortSelect string
| PriceSlider int
| ResetFilters
| PrevPage
| NextPage
| PageButton int
| TryAgain

fun step :: "(string \<Rightarrow> string \<Rightarrow> jsnum) \<Rightarrow> event \<Rightarrow> State \<Rightarrow> State" where
  "step lc (SearchParams q) st = searchParamsEffect lc q st"
| "step lc (FetchSettles r) st = fetchSettled lc r st"
| "step lc (SelectCategory c) st = selectCategoryOption lc c st"
| "step lc (BannerClick n) st = handleCategoryBannerClick lc n st"
| "step lc (SortSelect v) st = changeSortBy lc v st"
| "step lc (PriceSlider v) st = changePriceSlider lc v st"
| "step lc ResetFilters st = resetFilters lc st"
| "step lc PrevPage st = prevPage st"
| "step lc NextPage st = nextPage st"
| "step lc (PageButton i) st = gotoPage i st"
| "step lc TryAgain st = mounted lc"

text \<open>
  What can happen in a state. While \<open>loading\<close> holds only the skeleton is rendered, so no
  control can be used; a control can be used where the render puts it and it is not
  disabled. A request settles only while one is pending, and the query of the URL can
  change at any time. \<open>TryAgain\<close> reloads the page.
\<close>

fun enabled :: "State \<Rightarrow> event \<Rightarrow> bool" where
  "enabled st (SearchParams q) = True"
| "enabled st (FetchSettles r) = (pending st > 0)"
| "enabled st (SelectCategory c) = (\<not> loading st \<and> c \<in> set (categoryOptions st))"
| "enabled st (BannerClick n) =
     (\<not> loading st \<and> n \<in> set (map (\<lambda>sec. c_name (fst sec)) (categorySections st)))"
| "enabled st (SortSelect v) =
     (\<not> loading st \<and> v \<in> set [''price-asc'', ''price-desc'', ''name-asc'', ''name-desc''])"
| "enabled st (PriceSlider v) = (\<not> loading st)"
| "enabled st ResetFilters = (\<not> loading st)"
| "enabled st PrevPage = (\<not> loading st \<and> paginationShown st \<and> currentPage st \<noteq> 1)"
| "enabled st NextPage =
     (\<not> loading st \<and> paginationShown st \<and> currentPage st \<noteq> totalPages st)"
| "enabled st (PageButton i) =
     (\<not> loading st \<and> paginationShown st \<and> 0 \<le> i \<and> i < min (totalPages st) 5)"
| "enabled st TryAgain = (\<not> loading st \<and> error st \<noteq> None)"

inductive reachable :: "(string \<Rightarrow> string \<Rightarrow> jsnum) \<Rightarrow> State \<Rightarrow> bool"
  for lc :: "string \<Rightarrow> string \<Rightarrow> jsnum" where
  reachable_mounted: "reachable lc (mounted lc)"
| reachable_step: "reachable lc st \<Longrightarrow> enabled st ev \<Longrightarrow> reachable lc (step lc ev st)"

subsection \<open>The cart buttons of a product card\<close>

text \<open>
  \<open>addToCart\<close> and \<open>buyNow\<close> belong to the cart provider; what the component does is call
  them. The calls made so far are kept as a list. The argument of a call is the product with
  \<open>salePrice\<close> replaced by its number and \<open>images\<close> by an array.
\<close>

record CartItem =
  item_product :: Product
  item_salePrice :: jsnum
  item_images :: "string list"

datatype cartCall = AddToCart CartItem nat | BuyNow CartItem nat

definition normalized :: "Product \<Rightarrow> CartItem" where
  "normalized product =
     \<lparr>item_product = product,
      item_salePrice = parsedPrice product,
      item_images = (case images product of None \<Rightarrow> [] | Some imgs \<Rightarrow> imgs)\<rparr>"

text \<open>A click on a button runs its \<open>onClick\<close> unless the button is \<open>disabled\<close>.\<close>

definition button_click :: "bool \<Rightarrow> ('s \<Rightarrow> 's) \<Rightarrow> 's \<Rightarrow> 's" where
  "button_click disabled onClick s = (if disabled then s else onClick s)"

definition addToCartButton :: "Product \<Rightarrow> cartCall list \<Rightarrow> cartCall list" where
  "addToCartButton product =
     button_click (stockStatus product = Some ''OUT OF STOCK'')
       (\<lambda>calls. calls @ [AddToCart (normalized product) 1])"

definition buyNowButton :: "Product \<Rightarrow> cartCall list \<Rightarrow> cartCall list" where
  "buyNowButton product =
     button_click (stockStatus product = Some ''OUT OF STOCK'')
       (\<lambda>calls. calls @ [BuyNow (normalized product) 1])"

subsection \<open>Example data\<close>

text \<open>
  A collation for the examples: strings compared character by character, by code. The
  products and categories are those of the scenarios in the specification.
\<close>

fun codeCompare :: "string \<Rightarrow> string \<Rightarrow> jsnum" where
  "codeCompare [] [] = Fin 0"
| "codeCompare [] (b # bs) = Fin (- 1)"
| "codeCompare (a # as) [] = Fin 1"
| "codeCompare (a # as) (b # bs) =
     (if (of_char a :: nat) < of_char b then Fin (- 1)
      else if (of_char b :: nat) < of_char a then Fin 1
      else codeCompare as bs)"

definition mkProduct :: "string \<Rightarrow> string \<Rightarrow> string \<Rightarrow> string \<Rightarrow> Product" where
  "mkProduct i n c price =
     \<lparr>p_id = i, p_name = n, brand = None, category = c, sku = None, costPrice = None,
      regularPrice = None, salePrice = price, stockStatus = None, description = None,
      images = None\<rparr>"

definition mkCategory :: "string \<Rightarrow> string \<Rightarrow> bool option \<Rightarrow> Category" where
  "mkCategory i n s = \<lparr>c_id = i, c_name = n, img = None, banner = None, c_show = s\<rparr>"

definition prodA :: Product where
  "prodA = mkProduct ''a'' ''A'' ''c1'' ''10''"

definition prodB :: Product where
  "prodB = mkProduct ''b'' ''B'' ''c2'' ''5''"

definition prodC :: Product where
  "prodC = mkProduct ''c'' ''C'' ''c1'' ''10.5''"

definition soldOut :: Product where
  "soldOut = (mkProduct ''d'' ''D'' ''c1'' ''7'')\<lparr>stockStatus := Some ''OUT OF STOCK''\<rparr>"

definition catShoes :: Category where
  "catShoes = mkCategory ''c1'' ''Shoes'' None"

definition catHats :: Category where
  "catHats = mkCategory ''c2'' ''Hats'' None"

definition catHatsHidden :: Category where
  "catHatsHidden = mkCategory ''c2'' ''Hats'' (Some False)"

text \<open>The state after the mount and a first successful load of the two products.\<close>

definition loadedAB :: State where
  "loadedAB =
     step codeCompare (FetchSettles (Resolved (Some [prodA, prodB]) (Some [catShoes, catHats])))
       (mounted codeCompare)"

text \<open>The same with the category of hats hidden.\<close>

definition loadedHidden :: State where
  "loadedHidden =
     step codeCompare
       (FetchSettles (Resolved (Some [prodA, prodB]) (Some [catShoes, catHatsHidden])))
       (mounted codeCompare)"

text \<open>
  A run with two overlapping requests. The query of the URL changes while the request of
  the mount is pending, so a second request starts. One request resolves with nine shoes;
  the shopper goes to page 2; then the other request is rejected.
\<close>

definition nineShoes :: "Product list" where
  "nineShoes =
     map (\<lambda>i. mkProduct i ''Shoe'' ''c1'' ''10'')
       [''s1'', ''s2'', ''s3'', ''s4'', ''s5'', ''s6'', ''s7'', ''s8'', ''s9'']"

definition run1 :: State where
  "run1 = step codeCompare (SearchParams ''shoe'') (mounted codeCompare)"

definition run2 :: State where
  "run2 =
     step codeCompare (FetchSettles (Resolved (Some nineShoes) (Some [catShoes, catHats]))) run1"

definition run3 :: State where
  "run3 = step codeCompare NextPage run2"

definition run4 :: State where
  "run4 = step codeCompare (FetchSettles Rejected) run3"

text \<open>
  A later change of the query to \<open>hat\<close> starts a new request, which is then rejected.
\<close>

definition searchHat :: State where
  "searchHat = step codeCompare (SearchParams ''hat'') loadedAB"

definition refetchFailed :: State where
  "refetchFailed = step codeCompare (FetchSettles Rejected) searchHat"

text \<open>The loaded state after the shopper chose the descending price order.\<close>

definition loadedDesc :: State where
  "loadedDesc = step codeCompare (SortSelect ''price-desc'') loadedAB"

text \<open>
  The loaded state after the shopper chose a name order, and with a sort key that is none
  of the four options.
\<close>

definition loadedNameAsc :: State where
  "loadedNameAsc = step codeCompare (SortSelect ''name-asc'') loadedAB"

definition loadedNameDesc :: State where
  "loadedNameDesc = step codeCompare (SortSelect ''name-desc'') loadedAB"

definition loadedOtherKey :: State where
  "loadedOtherKey = loadedAB\<lparr>sortBy := ''relevance''\<rparr>"

section \<open>Properties\<close>

subsection \<open>Facts about numbers and arrays\<close>

lemma num_le_refl: "x \<noteq> NaN \<Longrightarrow> num_le x x"
  by (cases x) simp_all

lemma num_le_trans: "num_le x y \<Longrightarrow> num_le y z \<Longrightarrow> num_le x z"
  by (cases x; cases y; cases z) simp_all

lemma num_le_total: "x \<noteq> NaN \<Longrightarrow> y \<noteq> NaN \<Longrightarrow> num_le x y \<or> num_le y x"
  by (cases x; cases y) auto

lemma parsedPrice_not_NaN: "parsedPrice p \<noteq> NaN"
  by (simp add: parsedPrice_def num_or_def)

lemma Math_min_lower:
  "NaN \<notin> set xs \<Longrightarrow> Math_min xs \<noteq> NaN \<and> (\<forall>x\<in>set xs. num_le (Math_min xs) x)"
proof (induction xs)
  case Nil
  then show ?case by (simp add: Math_min_def)
next
  case (Cons a xs)
  then have IH: "Math_min xs \<noteq> NaN" "\<forall>x\<in>set xs. num_le (Math_min xs) x" and a: "a \<noteq> NaN"
    by auto
  have step: "Math_min (a # xs) = num_min a (Math_min xs)" by (simp add: Math_min_def)
  show ?case
  proof (cases "num_le a (Math_min xs)")
    case True
    then have "Math_min (a # xs) = a" using a IH(1) by (simp add: step num_min_def)
    then show ?thesis using a True IH(2) by (auto intro: num_le_refl num_le_trans)
  next
    case False
    then have "Math_min (a # xs) = Math_min xs" using a IH(1) by (simp add: step num_min_def)
    moreover have "num_le (Math_min xs) a" using False num_le_total[OF a IH(1)] by blast
    ultimately show ?thesis using IH by auto
  qed
qed

lemma Math_min_mem: "NaN \<notin> set xs \<Longrightarrow> xs \<noteq> [] \<Longrightarrow> Math_min xs \<in> set xs"
proof (induction xs)
  case Nil
  then show ?case by simp
next
  case (Cons a xs)
  have step: "Math_min (a # xs) = num_min a (Math_min xs)" by (simp add: Math_min_def)
  show ?case
  proof (cases "xs = []")
    case True
    then show ?thesis using Cons.prems by (cases a) (simp_all add: Math_min_def num_min_def)
  next
    case False
    then have "Math_min xs \<in> set xs" using Cons by auto
    then show ?thesis using Cons.prems by (auto simp: step num_min_def)
  qed
qed

lemma Math_max_upper:
  "NaN \<notin> set xs \<Longrightarrow> Math_max xs \<noteq> NaN \<and> (\<forall>x\<in>set xs. num_le x (Math_max xs))"
proof (induction xs)
  case Nil
  then show ?case by (simp add: Math_max_def)
next
  case (Cons a xs)
  then have IH: "Math_max xs \<noteq> NaN" "\<forall>x\<in>set xs. num_le x (Math_max xs)" and a: "a \<noteq> NaN"
    by auto
  have step: "Math_max (a # xs) = num_max a (Math_max xs)" by (simp add: Math_max_def)
  show ?case
  proof (cases "num_le a (Math_max xs)")
    case True
    then have "Math_max (a # xs) = Math_max xs" using a IH(1) by (simp add: step num_max_def)
    then show ?thesis using True IH by auto
  next
    case False
    then have m: "Math_max (a # xs) = a" using a IH(1) by (simp add: step num_max_def)
    have "num_le (Math_max xs) a" using False num_le_total[OF a IH(1)] by blast
    then show ?thesis using m a IH(2) by (auto intro: num_le_refl num_le_trans)
  qed
qed

lemma Math_max_mem: "NaN \<notin> set xs \<Longrightarrow> xs \<noteq> [] \<Longrightarrow> Math_max xs \<in> set xs"
proof (induction xs)
  case Nil
  then show ?case by simp
next
  case (Cons a xs)
  have step: "Math_max (a # xs) = num_max a (Math_max xs)" by (simp add: Math_max_def)
  show ?case
  proof (cases "xs = []")
    case True
    then show ?thesis using Cons.prems by (cases a) (simp_all add: Math_max_def num_max_def)
  next
    case False
    then have "Math_max xs \<in> set xs" using Cons by auto
    then show ?thesis using Cons.prems by (auto simp: step num_max_def)
  qed
qed

lemma Math_floor_le: "x \<noteq> NaN \<Longrightarrow> num_le (Math_floor x) x"
  by (cases x) simp_all

lemma Math_ceil_ge: "x \<noteq> NaN \<Longrightarrow> num_le x (Math_ceil x)"
  by (cases x) simp_all

lemma prices_no_NaN: "NaN \<notin> set (map parsedPrice ps)"
  using parsedPrice_not_NaN by (metis (no_types) imageE list.set_map)

lemma priceInRange_getPriceRange:
  assumes "p \<in> set ps"
  shows "priceInRange (getPriceRange ps) p"
proof -
  let ?xs = "map parsedPrice ps"
  have ne: "ps \<noteq> []" using assms by auto
  have mem: "parsedPrice p \<in> set ?xs" using assms by simp
  have lo: "num_le (Math_min ?xs) (parsedPrice p)" and lon: "Math_min ?xs \<noteq> NaN"
    using Math_min_lower[OF prices_no_NaN, of ps] mem by blast+
  have hi: "num_le (parsedPrice p) (Math_max ?xs)" and hin: "Math_max ?xs \<noteq> NaN"
    using Math_max_upper[OF prices_no_NaN, of ps] mem by blast+
  have "num_le (Math_floor (Math_min ?xs)) (parsedPrice p)"
    using Math_floor_le[OF lon] lo by (rule num_le_trans)
  moreover have "num_le (parsedPrice p) (Math_ceil (Math_max ?xs))"
    using hi Math_ceil_ge[OF hin] by (rule num_le_trans)
  ultimately show ?thesis
    using ne by (simp add: priceInRange_def getPriceRange_def num_ge_def Let_def)
qed

lemma mset_insert_sorted: "mset (insert_sorted cmp x ys) = add_mset x (mset ys)"
  by (induction ys) simp_all

lemma mset_js_sort: "mset (js_sort cmp xs) = mset xs"
  by (induction xs) (simp_all add: js_sort_def mset_insert_sorted)

lemma take_min_length: "take (nat (min k (int (length ys)))) ys = take (nat k) ys"
proof (cases "k \<le> int (length ys)")
  case True
  then show ?thesis by (simp add: min_def)
next
  case False
  then have "length ys \<le> nat k" by linarith
  with False show ?thesis by (simp add: min_def)
qed

lemma js_slice_page:
  assumes "0 \<le> s"
  shows "js_slice s (s + 8) xs = take 8 (drop (nat s) xs)"
proof (cases "s \<le> int (length xs)")
  case True
  let ?ys = "drop (nat s) xs"
  have len: "int (length ?ys) = int (length xs) - s" using True assms by simp
  have "js_slice s (s + 8) xs = take (nat (min 8 (int (length ?ys)))) ?ys"
    using True assms len by (auto simp add: js_slice_def Let_def min_def max_def intro!: arg_cong2[where f=take])
  also have "\<dots> = take 8 ?ys"
    using take_min_length[of 8 ?ys] by simp
  finally show ?thesis .
next
  case False
  then show ?thesis using assms by (simp add: js_slice_def Let_def min_def max_def)
qed


lemma num_pos_sub: "x \<noteq> NaN \<Longrightarrow> y \<noteq> NaN \<Longrightarrow> (\<not> num_pos (num_sub x y)) = num_le x y"
  by (cases x; cases y) auto

lemma set_insert_sorted: "set (insert_sorted cmp x ys) = insert x (set ys)"
  by (induction ys) auto

lemma sorted_insert_sorted:
  assumes tot: "\<And>a b. num_pos (cmp a b) \<Longrightarrow> le b a"
    and nle: "\<And>a b. \<not> num_pos (cmp a b) \<Longrightarrow> le a b"
    and trans: "\<And>a b c. le a b \<Longrightarrow> le b c \<Longrightarrow> le a c"
  shows "sorted_wrt le ys \<Longrightarrow> sorted_wrt le (insert_sorted cmp x ys)"
proof (induction ys)
  case Nil
  then show ?case by simp
next
  case (Cons y ys)
  show ?case
  proof (cases "num_pos (cmp x y)")
    case True
    then have "le y x" by (rule tot)
    then show ?thesis using True Cons by (auto simp: set_insert_sorted)
  next
    case False
    then have "le x y" by (rule nle)
    then show ?thesis using False Cons.prems by (auto intro: trans)
  qed
qed

lemma sorted_js_sort:
  assumes "\<And>a b. num_pos (cmp a b) \<Longrightarrow> le b a"
    and "\<And>a b. \<not> num_pos (cmp a b) \<Longrightarrow> le a b"
    and "\<And>a b c. le a b \<Longrightarrow> le b c \<Longrightarrow> le a c"
  shows "sorted_wrt le (js_sort cmp xs)"
proof (induction xs)
  case Nil
  then show ?case by (simp add: js_sort_def)
next
  case (Cons x xs)
  have "js_sort cmp (x # xs) = insert_sorted cmp x (js_sort cmp xs)" by (simp add: js_sort_def)
  then show ?case using sorted_insert_sorted[of cmp le, OF assms Cons] by simp
qed

lemma sorted_price_asc:
  "sorted_wrt (\<lambda>a b. num_le (parsedPrice a) (parsedPrice b)) (js_sort (sortCompare lc ''price-asc'') xs)"
proof (rule sorted_js_sort)
  fix a b
  show "num_pos (sortCompare lc ''price-asc'' a b) \<Longrightarrow> num_le (parsedPrice b) (parsedPrice a)"
    using num_pos_sub[OF parsedPrice_not_NaN parsedPrice_not_NaN, of a b]
      num_le_total[OF parsedPrice_not_NaN parsedPrice_not_NaN, of a b]
    by (auto simp: sortCompare_def Let_def)
  show "\<not> num_pos (sortCompare lc ''price-asc'' a b) \<Longrightarrow> num_le (parsedPrice a) (parsedPrice b)"
    using num_pos_sub[OF parsedPrice_not_NaN parsedPrice_not_NaN, of a b]
    by (auto simp: sortCompare_def Let_def)
next
  fix a b c
  show "num_le (parsedPrice a) (parsedPrice b) \<Longrightarrow> num_le (parsedPrice b) (parsedPrice c) \<Longrightarrow>
     num_le (parsedPrice a) (parsedPrice c)" by (rule num_le_trans)
qed

lemma sorted_price_desc:
  "sorted_wrt (\<lambda>a b. num_le (parsedPrice b) (parsedPrice a)) (js_sort (sortCompare lc ''price-desc'') xs)"
proof (rule sorted_js_sort)
  fix a b
  show "num_pos (sortCompare lc ''price-desc'' a b) \<Longrightarrow> num_le (parsedPrice a) (parsedPrice b)"
    using num_pos_sub[OF parsedPrice_not_NaN parsedPrice_not_NaN, of b a]
      num_le_total[OF parsedPrice_not_NaN parsedPrice_not_NaN, of a b]
    by (auto simp: sortCompare_def Let_def)
  show "\<not> num_pos (sortCompare lc ''price-desc'' a b) \<Longrightarrow> num_le (parsedPrice b) (parsedPrice a)"
    using num_pos_sub[OF parsedPrice_not_NaN parsedPrice_not_NaN, of b a]
    by (auto simp: sortCompare_def Let_def)
next
  fix a b c
  show "num_le (parsedPrice b) (parsedPrice a) \<Longrightarrow> num_le (parsedPrice c) (parsedPrice b) \<Longrightarrow>
     num_le (parsedPrice c) (parsedPrice a)" by (rule num_le_trans[rotated])
qed

lemma trim_Nil: "trim [] = []" by (simp add: trim_def)

lemma filter_full_range: "filter (priceInRange (getPriceRange ps)) ps = ps"
  by (rule filter_True) (simp add: priceInRange_getPriceRange)

lemma pipeline_unfiltered:
  assumes "selectedCategory st = ''All''" "searchQuery st = []"
    "priceRange st = getPriceRange (products st)"
  shows "filteredProducts (applyFiltersEffect lc st) =
     js_sort (sortCompare lc (sortBy st)) (products st)"
proof (cases "products st = []")
  case True
  then show ?thesis by (simp add: applyFiltersEffect_def js_sort_def)
next
  case False
  then show ?thesis using assms
    by (simp add: applyFiltersEffect_def filterPipeline_def trim_Nil filter_full_range Let_def)
qed

lemma js_slice_0_8: "js_slice 0 8 xs = take 8 xs"
  using js_slice_page[of 0 xs] by simp

lemma map_filter_sections:
  "List.map_filter (\<lambda>cat. if F cat = [] then None else Some (cat, F cat)) (filter V cs)
   = [(cat, F cat). cat \<leftarrow> cs, V cat, F cat \<noteq> []]"
  by (induction cs) simp_all

lemma foldl_catMap:
  "foldl (\<lambda>catMap cat. catMap(c_id cat \<mapsto> c_name cat)) m cs =
   m ++ map_of (rev (map (\<lambda>c. (c_id c, c_name c)) cs))"
proof (induction cs arbitrary: m)
  case Nil
  then show ?case by simp
next
  case (Cons c cs)
  let ?f = "\<lambda>catMap cat. catMap(c_id cat \<mapsto> c_name cat)"
  let ?al = "\<lambda>xs. map_of (rev (map (\<lambda>c. (c_id c, c_name c)) xs))"
  have "foldl ?f m (c # cs) = foldl ?f (m(c_id c \<mapsto> c_name c)) cs"
    by simp
  also have "\<dots> = m(c_id c \<mapsto> c_name c) ++ ?al cs"
    by (rule Cons.IH)
  also have "\<dots> = m ++ ?al (c # cs)"
    by (simp add: fun_eq_iff map_add_def split: option.splits)
  finally show ?case .
qed

lemma buildCatMap_map_of:
  "buildCatMap cs = map_of (rev (map (\<lambda>c. (c_id c, c_name c)) cs))"
  by (simp add: buildCatMap_def foldl_catMap)

lemma buildCatMap_show:
  "buildCatMap (map (\<lambda>c. c\<lparr>c_show := h c\<rparr>) cs) = buildCatMap cs"
  by (simp add: buildCatMap_map_of comp_def)

lemma loaded_fields:
  "products (fetchSettled lc (Resolved (Some ps) (Some cs)) st) = ps"
  "categories (fetchSettled lc (Resolved (Some ps) (Some cs)) st) = cs"
  "categoryMap (fetchSettled lc (Resolved (Some ps) (Some cs)) st) = buildCatMap cs"
  by (simp_all add: fetchSettled_def applyFiltersEffect_def Let_def)

lemma select_fields:
  "products (selectCategoryOption lc n st) = products st"
  "categoryMap (selectCategoryOption lc n st) = categoryMap st"
  "selectedCategory (selectCategoryOption lc n st) = n"
  by (simp_all add: selectCategoryOption_def applyFiltersEffect_def)

lemma totalPages_bounds:
  "8 * (totalPages st - 1) < int (length (filteredProducts st)) \<and>
   int (length (filteredProducts st)) \<le> 8 * totalPages st"
  unfolding totalPages_def itemsPerPage_def
  by (auto simp: ceiling_le_iff less_ceiling_iff; linarith?)

subsection \<open>Sorting by name\<close>

lemma codeCompare_less:
  "(of_char a :: nat) < of_char b \<Longrightarrow> codeCompare (a # as) (b # bs) = Fin (- 1)"
  by simp

lemma codeCompare_greater:
  "(of_char b :: nat) < of_char a \<Longrightarrow> codeCompare (a # as) (b # bs) = Fin 1"
  by simp

lemma codeCompare_same:
  "(of_char a :: nat) = of_char b \<Longrightarrow> codeCompare (a # as) (b # bs) = codeCompare as bs"
  by simp

lemma codeCompare_antisym: "num_pos (codeCompare x y) \<Longrightarrow> \<not> num_pos (codeCompare y x)"
proof (induction x y rule: codeCompare.induct)
  case (4 a as b bs)
  consider "(of_char a :: nat) < of_char b" | "(of_char b :: nat) < of_char a"
    | "(of_char a :: nat) = of_char b" by linarith
  then show ?case
  proof cases
    case 1
    then show ?thesis using "4.prems" by (simp add: codeCompare_less)
  next
    case 2
    then show ?thesis by (simp add: codeCompare_less)
  next
    case 3
    then have "num_pos (codeCompare as bs)" using "4.prems" by simp
    then have "\<not> num_pos (codeCompare bs as)" using 3 "4.IH" by simp
    then show ?thesis using 3 by simp
  qed
qed simp_all

lemma codeCompare_trans:
  "\<not> num_pos (codeCompare x y) \<Longrightarrow> \<not> num_pos (codeCompare y z) \<Longrightarrow>
   \<not> num_pos (codeCompare x z)"
proof (induction x y arbitrary: z rule: codeCompare.induct)
  case 1
  then show ?case by simp
next
  case (2 b bs)
  then show ?case by (cases z) simp_all
next
  case (3 a as)
  then show ?case by simp
next
  case (4 a as b bs)
  show ?case
  proof (cases z)
    case Nil
    then show ?thesis using "4.prems" by simp
  next
    case (Cons c cs)
    have ab: "\<not> (of_char b :: nat) < of_char a"
      using "4.prems"(1) codeCompare_greater[of b a as bs] by auto
    have bc: "\<not> (of_char c :: nat) < of_char b"
      using "4.prems"(2) codeCompare_greater[of c b bs cs] unfolding Cons by auto
    show ?thesis
    proof (cases "(of_char a :: nat) < of_char c")
      case True
      then show ?thesis unfolding Cons by (simp add: codeCompare_less)
    next
      case False
      then have e1: "(of_char a :: nat) = of_char b" and e2: "(of_char b :: nat) = of_char c"
        using ab bc by linarith+
      have p1: "\<not> num_pos (codeCompare as bs)"
        using "4.prems"(1) e1 by simp
      have p2: "\<not> num_pos (codeCompare bs cs)"
        using "4.prems"(2) e2 unfolding Cons by simp
      have "\<not> num_pos (codeCompare as cs)"
        using "4.IH"[OF _ _ p1 p2] e1 by simp
      then show ?thesis unfolding Cons using e1 e2 by simp
    qed
  qed
qed


lemma consistent_codeCompare: "consistentCollation codeCompare"
  unfolding consistentCollation_def
proof (intro conjI allI impI)
  fix x y
  assume "num_pos (codeCompare x y)"
  then show "\<not> num_pos (codeCompare y x)" by (rule codeCompare_antisym)
next
  fix x y z
  assume "\<not> num_pos (codeCompare x y)" and "\<not> num_pos (codeCompare y z)"
  then show "\<not> num_pos (codeCompare x z)" by (rule codeCompare_trans)
qed

lemma collation_antisym:
  assumes "consistentCollation lc" and "num_pos (lc x y)"
  shows "\<not> num_pos (lc y x)"
proof -
  from assms(1) have "\<forall>x y. num_pos (lc x y) \<longrightarrow> \<not> num_pos (lc y x)"
    unfolding consistentCollation_def by (rule conjunct1)
  from this[rule_format, OF assms(2)] show ?thesis .
qed

lemma collation_trans:
  assumes "consistentCollation lc" and "\<not> num_pos (lc x y)" and "\<not> num_pos (lc y z)"
  shows "\<not> num_pos (lc x z)"
proof -
  from assms(1)
  have "\<forall>x y z. \<not> num_pos (lc x y) \<longrightarrow> \<not> num_pos (lc y z) \<longrightarrow> \<not> num_pos (lc x z)"
    unfolding consistentCollation_def by (rule conjunct2)
  from this[rule_format, OF assms(2,3)] show ?thesis .
qed

lemma sortCompare_name_asc: "sortCompare lc ''name-asc'' a b = lc (p_name a) (p_name b)"
  by (simp add: sortCompare_def Let_def)

lemma sortCompare_name_desc: "sortCompare lc ''name-desc'' a b = lc (p_name b) (p_name a)"
  by (simp add: sortCompare_def Let_def)

lemma sorted_name_asc:
  assumes c: "consistentCollation lc"
  shows "sorted_wrt (\<lambda>a b. \<not> num_pos (lc (p_name a) (p_name b)))
           (js_sort (sortCompare lc ''name-asc'') xs)"
proof (rule sorted_js_sort)
  fix a b :: Product
  show "num_pos (sortCompare lc ''name-asc'' a b) \<Longrightarrow> \<not> num_pos (lc (p_name b) (p_name a))"
    unfolding sortCompare_name_asc by (rule collation_antisym[OF c])
  show "\<not> num_pos (sortCompare lc ''name-asc'' a b) \<Longrightarrow> \<not> num_pos (lc (p_name a) (p_name b))"
    unfolding sortCompare_name_asc .
next
  fix a b c' :: Product
  show "\<not> num_pos (lc (p_name a) (p_name b)) \<Longrightarrow> \<not> num_pos (lc (p_name b) (p_name c')) \<Longrightarrow>
     \<not> num_pos (lc (p_name a) (p_name c'))"
    by (rule collation_trans[OF c])
qed

lemma sorted_name_desc:
  assumes c: "consistentCollation lc"
  shows "sorted_wrt (\<lambda>a b. \<not> num_pos (lc (p_name b) (p_name a)))
           (js_sort (sortCompare lc ''name-desc'') xs)"
proof (rule sorted_js_sort)
  fix a b :: Product
  show "num_pos (sortCompare lc ''name-desc'' a b) \<Longrightarrow> \<not> num_pos (lc (p_name a) (p_name b))"
    unfolding sortCompare_name_desc by (rule collation_antisym[OF c])
  show "\<not> num_pos (sortCompare lc ''name-desc'' a b) \<Longrightarrow> \<not> num_pos (lc (p_name b) (p_name a))"
    unfolding sortCompare_name_desc .
next
  fix a b c' :: Product
  show "\<not> num_pos (lc (p_name b) (p_name a)) \<Longrightarrow> \<not> num_pos (lc (p_name c') (p_name b)) \<Longrightarrow>
     \<not> num_pos (lc (p_name c') (p_name a))"
    using collation_trans[OF c, of "p_name c'" "p_name b" "p_name a"] by blast
qed

lemma insert_sorted_ties: "(\<And>y. \<not> num_pos (cmp x y)) \<Longrightarrow> insert_sorted cmp x ys = x # ys"
  by (cases ys) simp_all

lemma js_sort_ties: "(\<And>x y. \<not> num_pos (cmp x y)) \<Longrightarrow> js_sort cmp xs = xs"
proof (induction xs)
  case Nil
  then show ?case by (simp add: js_sort_def)
next
  case (Cons x xs)
  have "js_sort cmp (x # xs) = insert_sorted cmp x (js_sort cmp xs)" by (simp add: js_sort_def)
  then show ?case using Cons by (simp add: insert_sorted_ties)
qed

lemma js_sort_other_key:
  "sb \<notin> set [''price-asc'', ''price-desc'', ''name-asc'', ''name-desc''] \<Longrightarrow>
   js_sort (sortCompare lc sb) xs = xs"
  by (rule js_sort_ties) (simp add: sortCompare_def Let_def)


subsection \<open>The example runs, evaluated\<close>

text \<open>
  The values of the example states, field by field, and that each of them is reachable.
\<close>

lemma parseFloat_10: "parseFloat ''10'' = Fin 10"
  by code_simp
lemma parsedPrice_10: "parsedPrice (mkProduct i n c ''10'') = Fin 10"
  by (simp add: parsedPrice_def mkProduct_def parseFloat_10 num_or_def)
lemma strings_shoe: "trim ''shoe'' = ''shoe''" "toLowerCase ''shoe'' = ''shoe''" "toLowerCase ''Shoe'' = ''shoe''"
  by code_simp+
lemma searchMatches_shoe: "searchMatches cm ''shoe'' (mkProduct i ''Shoe'' c p)"
  by (simp add: searchMatches_def mkProduct_def strings_shoe Let_def)
lemma priceInRange_10: "priceInRange (Fin 10, Fin 10) (mkProduct i n c ''10'')"
  by (simp add: priceInRange_def parsedPrice_10 num_ge_def)
lemma sortCompare_equal_prices: "sortCompare lc ''price-asc'' (mkProduct i n c ''10'') (mkProduct i' n' c' ''10'') = Fin 0"
  by (simp add: sortCompare_def parsedPrice_10)
lemma getPriceRange_nineShoes: "getPriceRange nineShoes = (Fin 10, Fin 10)"
  by (simp add: getPriceRange_def nineShoes_def parsedPrice_10 Math_min_def Math_max_def num_min_def num_max_def)
lemma js_sort_nineShoes: "js_sort (sortCompare lc ''price-asc'') nineShoes = nineShoes"
  by (simp add: js_sort_def nineShoes_def sortCompare_equal_prices)
lemma filter_nineShoes: "filter (\<lambda>x. searchMatches cm ''shoe'' x \<and> priceInRange (Fin 10, Fin 10) x) nineShoes = nineShoes"
  by (simp add: nineShoes_def searchMatches_shoe priceInRange_10)
lemma length_nineShoes: "length nineShoes = 9"
  by (simp add: nineShoes_def)

lemma mounted_val:
  "mounted lc = \<lparr>products = [], filteredProducts = [], categories = [], categoryMap = Map.empty,
      selectedCategory = ''All'', sortBy = ''price-asc'', loading = True, error = None,
      searchQuery = [], priceRange = (Fin 0, Fin 10000), currentPage = 1, pending = 1\<rparr>"
  by (simp add: mounted_def initialState_def fetchData_start_def applyFiltersEffect_def)

lemma run1_val:
  "run1 = \<lparr>products = [], filteredProducts = [], categories = [], categoryMap = Map.empty,
      selectedCategory = ''All'', sortBy = ''price-asc'', loading = True, error = None,
      searchQuery = ''shoe'', priceRange = (Fin 0, Fin 10000), currentPage = 1, pending = 2\<rparr>"
  by (simp add: run1_def mounted_val searchParamsEffect_def fetchData_start_def applyFiltersEffect_def)

lemma run2_val:
  "run2 = \<lparr>products = nineShoes, filteredProducts = nineShoes, categories = [catShoes, catHats],
      categoryMap = buildCatMap [catShoes, catHats],
      selectedCategory = ''All'', sortBy = ''price-asc'', loading = False, error = None,
      searchQuery = ''shoe'', priceRange = (Fin 10, Fin 10), currentPage = 1, pending = 1\<rparr>"
  by (simp add: run2_def run1_val fetchSettled_def applyFiltersEffect_def filterPipeline_def
      getPriceRange_nineShoes length_nineShoes strings_shoe filter_nineShoes js_sort_nineShoes Let_def)

lemma totalPages_run2: "totalPages run2 = 2"
  using totalPages_bounds[of run2] by (simp add: run2_val length_nineShoes)

lemma allProductsFiltered_run2: "allProductsFiltered run2 = nineShoes"
  by (simp add: run2_val allProductsFiltered_def)

lemma run3_val:
  "run3 = \<lparr>products = nineShoes, filteredProducts = nineShoes, categories = [catShoes, catHats],
      categoryMap = buildCatMap [catShoes, catHats],
      selectedCategory = ''All'', sortBy = ''price-asc'', loading = False, error = None,
      searchQuery = ''shoe'', priceRange = (Fin 10, Fin 10), currentPage = 2, pending = 1\<rparr>"
  using totalPages_run2 by (simp add: run3_def nextPage_def) (simp add: run2_val)

lemma run4_val:
  "run4 = \<lparr>products = [], filteredProducts = [], categories = [catShoes, catHats],
      categoryMap = buildCatMap [catShoes, catHats],
      selectedCategory = ''All'', sortBy = ''price-asc'', loading = False,
      error = Some ''Failed to load products. Please try again later.'',
      searchQuery = ''shoe'', priceRange = (Fin 10, Fin 10), currentPage = 2, pending = 0\<rparr>"
  by (simp add: run4_def run3_val fetchSettled_def applyFiltersEffect_def)

lemma reachable_run1: "reachable codeCompare run1"
  unfolding run1_def by (rule reachable_step[OF reachable_mounted]) simp
lemma reachable_run2: "reachable codeCompare run2"
  unfolding run2_def by (rule reachable_step[OF reachable_run1]) (simp add: run1_val)
lemma reachable_run3: "reachable codeCompare run3"
  unfolding run3_def by (rule reachable_step[OF reachable_run2]) (simp add: paginationShown_def totalPages_run2 allProductsFiltered_run2 length_nineShoes, simp add: run2_val)
lemma reachable_run4: "reachable codeCompare run4"
  unfolding run4_def by (rule reachable_step[OF reachable_run3]) (simp add: run3_val)

lemma getPriceRange_AB: "getPriceRange [prodA, prodB] = (Fin 5, Fin 10)"
  by code_simp
lemma priceInRange_AB: "priceInRange (Fin 5, Fin 10) prodA" "priceInRange (Fin 5, Fin 10) prodB"
  by code_simp+
lemma js_sort_AB: "js_sort (sortCompare codeCompare ''price-asc'') [prodA, prodB] = [prodB, prodA]"
  by code_simp
lemma js_sort_B: "js_sort (sortCompare codeCompare ''price-asc'') [prodB] = [prodB]"
  by code_simp
lemma strings_hat: "trim ''hat'' = ''hat''" "toLowerCase ''hat'' = ''hat''"
  by code_simp+
lemma searchMatches_hat:
  "\<not> searchMatches (buildCatMap [catShoes, catHats]) ''hat'' prodA"
  "searchMatches (buildCatMap [catShoes, catHats]) ''hat'' prodB"
  by code_simp+

lemma loadedAB_val:
  "loadedAB = \<lparr>products = [prodA, prodB], filteredProducts = [prodB, prodA],
      categories = [catShoes, catHats], categoryMap = buildCatMap [catShoes, catHats],
      selectedCategory = ''All'', sortBy = ''price-asc'', loading = False, error = None,
      searchQuery = [], priceRange = (Fin 5, Fin 10), currentPage = 1, pending = 0\<rparr>"
  by (simp add: loadedAB_def mounted_val fetchSettled_def applyFiltersEffect_def
      filterPipeline_def getPriceRange_AB priceInRange_AB js_sort_AB trim_def Let_def)

lemma searchHat_val:
  "searchHat = \<lparr>products = [prodA, prodB], filteredProducts = [prodB],
      categories = [catShoes, catHats], categoryMap = buildCatMap [catShoes, catHats],
      selectedCategory = ''All'', sortBy = ''price-asc'', loading = True, error = None,
      searchQuery = ''hat'', priceRange = (Fin 5, Fin 10), currentPage = 1, pending = 1\<rparr>"
  by (simp add: searchHat_def loadedAB_val searchParamsEffect_def fetchData_start_def
      applyFiltersEffect_def filterPipeline_def strings_hat searchMatches_hat priceInRange_AB js_sort_B Let_def)

lemma refetchFailed_val:
  "refetchFailed = \<lparr>products = [], filteredProducts = [],
      categories = [catShoes, catHats], categoryMap = buildCatMap [catShoes, catHats],
      selectedCategory = ''All'', sortBy = ''price-asc'', loading = False,
      error = Some ''Failed to load products. Please try again later.'',
      searchQuery = ''hat'', priceRange = (Fin 5, Fin 10), currentPage = 1, pending = 0\<rparr>"
  by (simp add: refetchFailed_def searchHat_val fetchSettled_def applyFiltersEffect_def)

lemma reachable_loadedAB: "reachable codeCompare loadedAB"
  unfolding loadedAB_def by (rule reachable_step[OF reachable_mounted]) (simp add: mounted_val)

lemma reachable_searchHat: "reachable codeCompare searchHat"
  unfolding searchHat_def by (rule reachable_step[OF reachable_loadedAB]) simp

lemma js_sort_AB_desc: "js_sort (sortCompare codeCompare ''price-desc'') [prodA, prodB] = [prodA, prodB]"
  by code_simp

lemma loadedDesc_val:
  "loadedDesc = \<lparr>products = [prodA, prodB], filteredProducts = [prodA, prodB],
      categories = [catShoes, catHats], categoryMap = buildCatMap [catShoes, catHats],
      selectedCategory = ''All'', sortBy = ''price-desc'', loading = False, error = None,
      searchQuery = [], priceRange = (Fin 5, Fin 10), currentPage = 1, pending = 0\<rparr>"
  by (simp add: loadedDesc_def loadedAB_val changeSortBy_def applyFiltersEffect_def
      filterPipeline_def priceInRange_AB js_sort_AB_desc trim_def Let_def)

lemma loadedHidden_val:
  "loadedHidden = \<lparr>products = [prodA, prodB], filteredProducts = [prodB, prodA],
      categories = [catShoes, catHatsHidden],
      categoryMap = buildCatMap [catShoes, catHatsHidden],
      selectedCategory = ''All'', sortBy = ''price-asc'', loading = False, error = None,
      searchQuery = [], priceRange = (Fin 5, Fin 10), currentPage = 1, pending = 0\<rparr>"
  by (simp add: loadedHidden_def mounted_val fetchSettled_def applyFiltersEffect_def
      filterPipeline_def getPriceRange_AB priceInRange_AB js_sort_AB trim_def Let_def)

lemma example_categories:
  "category prodA = ''c1''" "category prodB = ''c2''"
  "c_id catShoes = ''c1''" "c_id catHats = ''c2''" "c_id catHatsHidden = ''c2''"
  "c_name catShoes = ''Shoes''" "c_name catHats = ''Hats''" "c_name catHatsHidden = ''Hats''"
  "c_show catShoes = None" "c_show catHats = None" "c_show catHatsHidden = Some False"
  by (simp_all add: prodA_def prodB_def catShoes_def catHats_def catHatsHidden_def
      mkProduct_def mkCategory_def)

lemma toLowerCase_names: "toLowerCase ''Hats'' = ''hats''" "toLowerCase ''Shoes'' = ''shoes''"
  by code_simp+

lemma js_sort_name_asc_AB:
  "js_sort (sortCompare codeCompare ''name-asc'') [prodA, prodB] = [prodA, prodB]"
  by code_simp

lemma js_sort_name_desc_AB:
  "js_sort (sortCompare codeCompare ''name-desc'') [prodA, prodB] = [prodB, prodA]"
  by code_simp

lemma loadedNameAsc_val:
  "loadedNameAsc = \<lparr>products = [prodA, prodB], filteredProducts = [prodA, prodB],
      categories = [catShoes, catHats], categoryMap = buildCatMap [catShoes, catHats],
      selectedCategory = ''All'', sortBy = ''name-asc'', loading = False, error = None,
      searchQuery = [], priceRange = (Fin 5, Fin 10), currentPage = 1, pending = 0\<rparr>"
  by (simp add: loadedNameAsc_def loadedAB_val changeSortBy_def applyFiltersEffect_def
      filterPipeline_def priceInRange_AB js_sort_name_asc_AB trim_def Let_def)

lemma loadedNameDesc_val:
  "loadedNameDesc = \<lparr>products = [prodA, prodB], filteredProducts = [prodB, prodA],
      categories = [catShoes, catHats], categoryMap = buildCatMap [catShoes, catHats],
      selectedCategory = ''All'', sortBy = ''name-desc'', loading = False, error = None,
      searchQuery = [], priceRange = (Fin 5, Fin 10), currentPage = 1, pending = 0\<rparr>"
  by (simp add: loadedNameDesc_def loadedAB_val changeSortBy_def applyFiltersEffect_def
      filterPipeline_def priceInRange_AB js_sort_name_desc_AB trim_def Let_def)

lemma loadedOtherKey_val:
  "loadedOtherKey = \<lparr>products = [prodA, prodB], filteredProducts = [prodB, prodA],
      categories = [catShoes, catHats], categoryMap = buildCatMap [catShoes, catHats],
      selectedCategory = ''All'', sortBy = ''relevance'', loading = False, error = None,
      searchQuery = [], priceRange = (Fin 5, Fin 10), currentPage = 1, pending = 0\<rparr>"
  by (simp add: loadedOtherKey_def loadedAB_val)

subsection \<open>Pagination\<close>

text \<open>
  C3, as the component computes it. The page count \<open>totalPages\<close> is the ceiling of the
  number of filtered products divided by 8: the one integer \<open>k\<close> with
  \<open>8 * (k - 1) < n \<le> 8 * k\<close>. No minimum of 1 is applied: the count is 0 exactly when no
  product passed the filters.
\<close>

theorem C3_totalPages_ceiling:
  "totalPages st = \<lceil>real (length (filteredProducts st)) / 8\<rceil> \<and>
   8 * (totalPages st - 1) < int (length (filteredProducts st)) \<and>
   int (length (filteredProducts st)) \<le> 8 * totalPages st \<and>
   (totalPages st = 0) = (filteredProducts st = [])"
proof -
  let ?n = "length (filteredProducts st)"
  have bounds: "8 * (totalPages st - 1) < int ?n \<and> int ?n \<le> 8 * totalPages st"
    by (rule totalPages_bounds)
  have "\<lceil>real ?n / 8\<rceil> = totalPages st"
    unfolding ceiling_eq_iff using bounds by (auto; linarith?)
  moreover have "(totalPages st = 0) = (filteredProducts st = [])"
    using bounds by auto
  ultimately show ?thesis using bounds by simp
qed

text \<open>
  C3 as stated fails for the empty list: in the initial state no product is filtered and
  the page count is 0, not 1.
\<close>

theorem C3_counterexample:
  "length (filteredProducts initialState) = 0 \<and> totalPages initialState \<noteq> 1"
  by (simp add: totalPages_def initialState_def)



subsection \<open>The cart buttons\<close>

text \<open>A button that is not disabled calls its hook with the normalized product and 1.\<close>

lemma cart_buttons_in_stock:
  "stockStatus p \<noteq> Some ''OUT OF STOCK'' \<Longrightarrow>
   addToCartButton p calls = calls @ [AddToCart (normalized p) 1] \<and>
   buyNowButton p calls = calls @ [BuyNow (normalized p) 1]"
  by (simp add: addToCartButton_def buyNowButton_def button_click_def)

text \<open>
  C5. For a product whose stock status is the out-of-stock value, which the component
  spells \<open>"OUT OF STOCK"\<close>, both buttons are disabled: a click on either makes no call to
  the cart.
\<close>

theorem C5_out_of_stock_refused:
  "stockStatus p = Some ''OUT OF STOCK'' \<Longrightarrow>
   addToCartButton p calls = calls \<and> buyNowButton p calls = calls"
  by (simp add: addToCartButton_def buyNowButton_def button_click_def)

theorem C5_witness:
  "stockStatus soldOut = Some ''OUT OF STOCK'' \<and>
   addToCartButton soldOut [] = [] \<and> buyNowButton soldOut [] = []"
  using C5_out_of_stock_refused[of soldOut "[]"]
  by (simp add: soldOut_def mkProduct_def)

subsection \<open>Price bounds\<close>

text \<open>
  C6, as the component computes it. For the empty product list the bounds are the default
  \<open>[0, 10000]\<close>. For a non-empty list they are the least parsed sale price rounded down to
  an integer and the greatest rounded up, a price that does not parse or is zero counting
  as 0.
\<close>

theorem C6_price_bounds_rounded:
  "getPriceRange [] = (Fin 0, Fin 10000) \<and>
   (ps \<noteq> [] \<longrightarrow>
     (\<exists>lo hi. lo \<in> set (map parsedPrice ps) \<and> hi \<in> set (map parsedPrice ps) \<and>
        (\<forall>x\<in>set (map parsedPrice ps). num_le lo x \<and> num_le x hi) \<and>
        getPriceRange ps = (Math_floor lo, Math_ceil hi)))"
proof -
  let ?xs = "map parsedPrice ps"
  have "\<exists>lo hi. lo \<in> set ?xs \<and> hi \<in> set ?xs \<and> (\<forall>x\<in>set ?xs. num_le lo x \<and> num_le x hi) \<and>
        getPriceRange ps = (Math_floor lo, Math_ceil hi)" if ne: "ps \<noteq> []"
  proof (intro exI conjI)
    show "Math_min ?xs \<in> set ?xs" using Math_min_mem[OF prices_no_NaN, of ps] ne by simp
    show "Math_max ?xs \<in> set ?xs" using Math_max_mem[OF prices_no_NaN, of ps] ne by simp
    show "\<forall>x\<in>set ?xs. num_le (Math_min ?xs) x \<and> num_le x (Math_max ?xs)"
      using Math_min_lower[OF prices_no_NaN, of ps] Math_max_upper[OF prices_no_NaN, of ps]
      by blast
    show "getPriceRange ps = (Math_floor (Math_min ?xs), Math_ceil (Math_max ?xs))"
      using ne by (simp add: getPriceRange_def Let_def)
  qed
  then show ?thesis by (simp add: getPriceRange_def)
qed

theorem C6_witness:
  "[prodA, prodB] \<noteq> [] \<and>
   (\<exists>lo hi. lo \<in> set (map parsedPrice [prodA, prodB]) \<and>
      hi \<in> set (map parsedPrice [prodA, prodB]) \<and>
      (\<forall>x\<in>set (map parsedPrice [prodA, prodB]). num_le lo x \<and> num_le x hi) \<and>
      getPriceRange [prodA, prodB] = (Math_floor lo, Math_ceil hi))"
  using C6_price_bounds_rounded[of "[prodA, prodB]"] by simp

text \<open>
  C6 as stated fails for a price with a fraction: the only price of the list is 10.5, and
  the bounds are \<open>[10, 11]\<close>.
\<close>

theorem C6_counterexample:
  "getPriceRange [prodC] = (Fin 10, Fin 11) \<and>
   getPriceRange [prodC] \<noteq>
     (Math_min (map parsedPrice [prodC]), Math_max (map parsedPrice [prodC]))"
  by code_simp

subsection \<open>The unfiltered view\<close>

text \<open>
  C7. With the category \<open>All\<close>, an empty search text and price bounds equal to the bounds
  derived from the stored products, the filter effect keeps every product: the filtered list
  is the stored list sorted by the comparator of the sort key, so it has the same products
  with the same multiplicities. Its order is that of the key: by parsed price, ascending or
  descending, for the two price keys; by name under the collation, ascending or descending,
  for the two name keys when the collation is consistent; and the stored order for any
  other key.
\<close>

theorem C7_unfiltered_view:
  assumes "selectedCategory st = ''All''" and "searchQuery st = []"
    and "priceRange st = getPriceRange (products st)"
  shows "filteredProducts (applyFiltersEffect lc st) =
           js_sort (sortCompare lc (sortBy st)) (products st) \<and>
         mset (filteredProducts (applyFiltersEffect lc st)) = mset (products st) \<and>
         (sortBy st = ''price-asc'' \<longrightarrow>
            sorted_wrt (\<lambda>a b. num_le (parsedPrice a) (parsedPrice b))
              (filteredProducts (applyFiltersEffect lc st))) \<and>
         (sortBy st = ''price-desc'' \<longrightarrow>
            sorted_wrt (\<lambda>a b. num_le (parsedPrice b) (parsedPrice a))
              (filteredProducts (applyFiltersEffect lc st))) \<and>
         (consistentCollation lc \<and> sortBy st = ''name-asc'' \<longrightarrow>
            sorted_wrt (\<lambda>a b. \<not> num_pos (lc (p_name a) (p_name b)))
              (filteredProducts (applyFiltersEffect lc st))) \<and>
         (consistentCollation lc \<and> sortBy st = ''name-desc'' \<longrightarrow>
            sorted_wrt (\<lambda>a b. \<not> num_pos (lc (p_name b) (p_name a)))
              (filteredProducts (applyFiltersEffect lc st))) \<and>
         (sortBy st \<notin> set [''price-asc'', ''price-desc'', ''name-asc'', ''name-desc''] \<longrightarrow>
            filteredProducts (applyFiltersEffect lc st) = products st)"
proof -
  let ?r = "filteredProducts (applyFiltersEffect lc st)"
  have r: "?r = js_sort (sortCompare lc (sortBy st)) (products st)"
    by (rule pipeline_unfiltered[OF assms])
  have m: "mset ?r = mset (products st)"
    unfolding r by (rule mset_js_sort)
  have pa: "sorted_wrt (\<lambda>a b. num_le (parsedPrice a) (parsedPrice b)) ?r"
    if "sortBy st = ''price-asc''"
    unfolding r that by (rule sorted_price_asc)
  have pd: "sorted_wrt (\<lambda>a b. num_le (parsedPrice b) (parsedPrice a)) ?r"
    if "sortBy st = ''price-desc''"
    unfolding r that by (rule sorted_price_desc)
  have na: "sorted_wrt (\<lambda>a b. \<not> num_pos (lc (p_name a) (p_name b))) ?r"
    if "consistentCollation lc \<and> sortBy st = ''name-asc''"
    using that sorted_name_asc[of lc "products st"] unfolding r by (elim conjE) (simp only:)
  have nd: "sorted_wrt (\<lambda>a b. \<not> num_pos (lc (p_name b) (p_name a))) ?r"
    if "consistentCollation lc \<and> sortBy st = ''name-desc''"
    using that sorted_name_desc[of lc "products st"] unfolding r by (elim conjE) (simp only:)
  have ok: "?r = products st"
    if "sortBy st \<notin> set [''price-asc'', ''price-desc'', ''name-asc'', ''name-desc'']"
    unfolding r using that by (rule js_sort_other_key)
  show ?thesis
    using r m pa pd na nd ok by blast
qed

theorem C7_witness:
  "selectedCategory loadedAB = ''All'' \<and> searchQuery loadedAB = [] \<and>
   priceRange loadedAB = getPriceRange (products loadedAB) \<and>
   sortBy loadedAB = ''price-asc'' \<and>
   filteredProducts (applyFiltersEffect codeCompare loadedAB) = [prodB, prodA] \<and>
   sorted_wrt (\<lambda>a b. num_le (parsedPrice a) (parsedPrice b))
     (filteredProducts (applyFiltersEffect codeCompare loadedAB)) \<and>
   selectedCategory loadedDesc = ''All'' \<and> searchQuery loadedDesc = [] \<and>
   priceRange loadedDesc = getPriceRange (products loadedDesc) \<and>
   sortBy loadedDesc = ''price-desc'' \<and>
   filteredProducts (applyFiltersEffect codeCompare loadedDesc) = [prodA, prodB] \<and>
   sorted_wrt (\<lambda>a b. num_le (parsedPrice b) (parsedPrice a))
     (filteredProducts (applyFiltersEffect codeCompare loadedDesc)) \<and>
   consistentCollation codeCompare \<and>
   selectedCategory loadedNameAsc = ''All'' \<and> searchQuery loadedNameAsc = [] \<and>
   priceRange loadedNameAsc = getPriceRange (products loadedNameAsc) \<and>
   sortBy loadedNameAsc = ''name-asc'' \<and>
   filteredProducts (applyFiltersEffect codeCompare loadedNameAsc) = [prodA, prodB] \<and>
   sorted_wrt (\<lambda>a b. \<not> num_pos (codeCompare (p_name a) (p_name b)))
     (filteredProducts (applyFiltersEffect codeCompare loadedNameAsc)) \<and>
   selectedCategory loadedNameDesc = ''All'' \<and> searchQuery loadedNameDesc = [] \<and>
   priceRange loadedNameDesc = getPriceRange (products loadedNameDesc) \<and>
   sortBy loadedNameDesc = ''name-desc'' \<and>
   filteredProducts (applyFiltersEffect codeCompare loadedNameDesc) = [prodB, prodA] \<and>
   sorted_wrt (\<lambda>a b. \<not> num_pos (codeCompare (p_name b) (p_name a)))
     (filteredProducts (applyFiltersEffect codeCompare loadedNameDesc)) \<and>
   selectedCategory loadedOtherKey = ''All'' \<and> searchQuery loadedOtherKey = [] \<and>
   priceRange loadedOtherKey = getPriceRange (products loadedOtherKey) \<and>
   sortBy loadedOtherKey \<notin> set [''price-asc'', ''price-desc'', ''name-asc'', ''name-desc''] \<and>
   filteredProducts (applyFiltersEffect codeCompare loadedOtherKey) = [prodA, prodB]"
proof -
  have a: "selectedCategory loadedAB = ''All''" "searchQuery loadedAB = []"
    "priceRange loadedAB = getPriceRange (products loadedAB)"
    "sortBy loadedAB = ''price-asc''"
    by (simp_all add: loadedAB_val getPriceRange_AB)
  have d: "selectedCategory loadedDesc = ''All''" "searchQuery loadedDesc = []"
    "priceRange loadedDesc = getPriceRange (products loadedDesc)"
    "sortBy loadedDesc = ''price-desc''"
    by (simp_all add: loadedDesc_val getPriceRange_AB)
  have n: "selectedCategory loadedNameAsc = ''All''" "searchQuery loadedNameAsc = []"
    "priceRange loadedNameAsc = getPriceRange (products loadedNameAsc)"
    "sortBy loadedNameAsc = ''name-asc''"
    by (simp_all add: loadedNameAsc_val getPriceRange_AB)
  have e: "selectedCategory loadedNameDesc = ''All''" "searchQuery loadedNameDesc = []"
    "priceRange loadedNameDesc = getPriceRange (products loadedNameDesc)"
    "sortBy loadedNameDesc = ''name-desc''"
    by (simp_all add: loadedNameDesc_val getPriceRange_AB)
  have o: "selectedCategory loadedOtherKey = ''All''" "searchQuery loadedOtherKey = []"
    "priceRange loadedOtherKey = getPriceRange (products loadedOtherKey)"
    "sortBy loadedOtherKey \<notin> set [''price-asc'', ''price-desc'', ''name-asc'', ''name-desc'']"
    by (simp_all add: loadedOtherKey_val getPriceRange_AB)
  have va: "js_sort (sortCompare codeCompare (sortBy loadedAB)) (products loadedAB) = [prodB, prodA]"
    by (simp add: loadedAB_val js_sort_AB)
  have vd: "js_sort (sortCompare codeCompare (sortBy loadedDesc)) (products loadedDesc) = [prodA, prodB]"
    by (simp add: loadedDesc_val js_sort_AB_desc)
  have vn: "js_sort (sortCompare codeCompare (sortBy loadedNameAsc)) (products loadedNameAsc) =
      [prodA, prodB]"
    by (simp add: loadedNameAsc_val js_sort_name_asc_AB)
  have ve: "js_sort (sortCompare codeCompare (sortBy loadedNameDesc)) (products loadedNameDesc) =
      [prodB, prodA]"
    by (simp add: loadedNameDesc_val js_sort_name_desc_AB)
  have po: "products loadedOtherKey = [prodA, prodB]"
    by (simp add: loadedOtherKey_val)
  note c = consistent_codeCompare
  note A = C7_unfiltered_view[OF a(1-3), of codeCompare]
  note D = C7_unfiltered_view[OF d(1-3), of codeCompare]
  note N = C7_unfiltered_view[OF n(1-3), of codeCompare]
  note E = C7_unfiltered_view[OF e(1-3), of codeCompare]
  note O = C7_unfiltered_view[OF o(1-3), of codeCompare]
  have fa: "filteredProducts (applyFiltersEffect codeCompare loadedAB) = [prodB, prodA]"
    using conjunct1[OF A] va by (rule trans)
  have fd: "filteredProducts (applyFiltersEffect codeCompare loadedDesc) = [prodA, prodB]"
    using conjunct1[OF D] vd by (rule trans)
  have fn: "filteredProducts (applyFiltersEffect codeCompare loadedNameAsc) = [prodA, prodB]"
    using conjunct1[OF N] vn by (rule trans)
  have fe: "filteredProducts (applyFiltersEffect codeCompare loadedNameDesc) = [prodB, prodA]"
    using conjunct1[OF E] ve by (rule trans)
  have "filteredProducts (applyFiltersEffect codeCompare loadedOtherKey) = products loadedOtherKey"
    using O o(4) by blast
  then have fo: "filteredProducts (applyFiltersEffect codeCompare loadedOtherKey) = [prodA, prodB]"
    using po by (rule trans)
  have sa: "sorted_wrt (\<lambda>a b. num_le (parsedPrice a) (parsedPrice b))
     (filteredProducts (applyFiltersEffect codeCompare loadedAB))"
    using A a(4) by blast
  have sd: "sorted_wrt (\<lambda>a b. num_le (parsedPrice b) (parsedPrice a))
     (filteredProducts (applyFiltersEffect codeCompare loadedDesc))"
    using D d(4) by blast
  have sn: "sorted_wrt (\<lambda>a b. \<not> num_pos (codeCompare (p_name a) (p_name b)))
     (filteredProducts (applyFiltersEffect codeCompare loadedNameAsc))"
    using N n(4) c by blast
  have se: "sorted_wrt (\<lambda>a b. \<not> num_pos (codeCompare (p_name b) (p_name a)))
     (filteredProducts (applyFiltersEffect codeCompare loadedNameDesc))"
    using E e(4) c by blast
  show ?thesis
    by (intro conjI a d n e o c fa fd fn fe fo sa sd sn se)
qed

subsection \<open>The rendered grid\<close>

text \<open>
  C1 on the scenario of the specification: products A (price 10) and B (price 5), sort key
  \<open>price-asc\<close>. The filter effect stores \<open>[B, A]\<close> in \<open>filteredProducts\<close>, and page 1 of that
  list is \<open>[B, A]\<close>; the grid renders the page of \<open>allProductsFiltered\<close>, which applies the
  category filter only, and shows \<open>[A, B]\<close>.
\<close>

theorem C1_grid_ignores_sort:
  "reachable codeCompare loadedAB \<and> sortBy loadedAB = ''price-asc'' \<and>
   filteredProducts loadedAB = [prodB, prodA] \<and>
   js_slice (indexOfFirstItem loadedAB) (indexOfLastItem loadedAB) (filteredProducts loadedAB)
     = [prodB, prodA] \<and>
   allProductsGrid loadedAB = Cards [prodA, prodB]"
  using reachable_loadedAB
  by (simp add: loadedAB_val allProductsGrid_def allProductsFiltered_def js_slice_def
      indexOfFirstItem_def indexOfLastItem_def itemsPerPage_def)

subsection \<open>A rejected request\<close>

text \<open>
  C2, as the component does it. When the requests of \<open>fetchData\<close> are rejected, the error
  message is recorded, the stored products and the filtered list become empty and the
  loading flag is cleared; the stored categories and the map from category identifier to
  name stay as they were.
\<close>

theorem C2_failed_fetch:
  "error (fetchSettled lc Rejected st) = Some ''Failed to load products. Please try again later.'' \<and>
   products (fetchSettled lc Rejected st) = [] \<and>
   filteredProducts (fetchSettled lc Rejected st) = [] \<and>
   categories (fetchSettled lc Rejected st) = categories st \<and>
   categoryMap (fetchSettled lc Rejected st) = categoryMap st \<and>
   \<not> loading (fetchSettled lc Rejected st)"
  by (simp add: fetchSettled_def applyFiltersEffect_def)

text \<open>
  C2 as stated fails after a successful load: the rejected request leaves the two
  categories of the earlier load in the store.
\<close>

theorem C2_counterexample:
  "reachable codeCompare searchHat \<and> enabled searchHat (FetchSettles Rejected) \<and>
   error refetchFailed \<noteq> None \<and> products refetchFailed = [] \<and>
   categories refetchFailed = [catShoes, catHats] \<and> categories refetchFailed \<noteq> []"
  using reachable_searchHat
  by (simp add: refetchFailed_val) (simp add: searchHat_val)

subsection \<open>Resetting the page\<close>

text \<open>
  C4, as the component does it. In a state whose stored product list is not empty, the
  current page is 1 after a change of the selected category (by the dropdown or by a
  category banner), of the search text, of the sort key or of the price bounds, and after a
  reset of the filters. It is also 1 after a request settles with a product list that is
  not empty.
\<close>

theorem C4_page_reset_nonempty:
  "products st \<noteq> [] \<Longrightarrow>
     (c \<noteq> selectedCategory st \<longrightarrow> currentPage (step lc (SelectCategory c) st) = 1) \<and>
     (q \<noteq> searchQuery st \<longrightarrow> currentPage (step lc (SearchParams q) st) = 1) \<and>
     (v \<noteq> sortBy st \<longrightarrow> currentPage (step lc (SortSelect v) st) = 1) \<and>
     currentPage (step lc (PriceSlider x) st) = 1 \<and>
     currentPage (step lc (BannerClick c) st) = 1 \<and>
     currentPage (step lc ResetFilters st) = 1 \<and>
     (products (step lc (FetchSettles r) st0) \<noteq> [] \<longrightarrow>
        currentPage (step lc (FetchSettles r) st0) = 1)"
  by (simp add: selectCategoryOption_def searchParamsEffect_def changeSortBy_def
      changePriceSlider_def handleCategoryBannerClick_def resetFilters_def
      fetchData_start_def fetchSettled_def applyFiltersEffect_def Let_def)

theorem C4_witness:
  "products run3 \<noteq> [] \<and> currentPage run3 = 2 \<and>
   ''Hats'' \<noteq> selectedCategory run3 \<and> ''hat'' \<noteq> searchQuery run3 \<and>
   ''price-desc'' \<noteq> sortBy run3 \<and>
   products (step codeCompare (FetchSettles (Resolved (Some [prodA, prodB]) None)) run3) \<noteq> [] \<and>
   currentPage (step codeCompare (SelectCategory ''Hats'') run3) = 1 \<and>
   currentPage (step codeCompare (SearchParams ''hat'') run3) = 1 \<and>
   currentPage (step codeCompare (SortSelect ''price-desc'') run3) = 1 \<and>
   currentPage (step codeCompare (PriceSlider 3) run3) = 1 \<and>
   currentPage (step codeCompare (BannerClick ''Hats'') run3) = 1 \<and>
   currentPage (step codeCompare ResetFilters run3) = 1 \<and>
   currentPage (step codeCompare (FetchSettles (Resolved (Some [prodA, prodB]) None)) run3) = 1"
proof -
  have a: "products run3 \<noteq> []" "currentPage run3 = 2" "''Hats'' \<noteq> selectedCategory run3"
    "''hat'' \<noteq> searchQuery run3" "''price-desc'' \<noteq> sortBy run3"
    by (simp_all add: run3_val nineShoes_def)
  have b: "products (step codeCompare (FetchSettles (Resolved (Some [prodA, prodB]) None)) run3)
      \<noteq> []"
    by (simp add: fetchSettled_def applyFiltersEffect_def Let_def)
  show ?thesis
    using a b C4_page_reset_nonempty[OF a(1), where c="''Hats''" and q="''hat''"
        and v="''price-desc''" and lc=codeCompare and x=3
        and r="Resolved (Some [prodA, prodB]) None" and ?st0.0=run3]
    by blast
qed

text \<open>
  C4 as stated fails in a reachable state without products: after the run with two
  overlapping requests the store is empty and the page is 2; choosing the category
  \<open>Hats\<close> then changes the selected category and leaves the page at 2, since the filter
  effect returns before it resets the page when there are no products.
\<close>

theorem C4_counterexample:
  "reachable codeCompare run4 \<and> enabled run4 (SelectCategory ''Hats'') \<and>
   selectedCategory run4 \<noteq> ''Hats'' \<and>
   selectedCategory (step codeCompare (SelectCategory ''Hats'') run4) = ''Hats'' \<and>
   currentPage (step codeCompare (SelectCategory ''Hats'') run4) = 2"
  using reachable_run4
  by (simp add: run4_val categoryOptions_def catHats_def catShoes_def mkCategory_def
      selectCategoryOption_def applyFiltersEffect_def)

subsection \<open>Home page sections\<close>

text \<open>
  C8. While the trimmed search text is not empty there is no category section. Otherwise
  there is one section for each category whose \<open>show\<close> is not \<open>false\<close> and that has a
  product, in the order of the stored categories, holding the first 8 products of the
  stored list whose category identifier is the identifier of the category, in stored order.
\<close>

theorem C8_home_sections:
  "(trim (searchQuery st) \<noteq> [] \<longrightarrow> categorySections st = []) \<and>
   (trim (searchQuery st) = [] \<longrightarrow>
      categorySections st =
        [(cat, take 8 (filter (\<lambda>p. category p = c_id cat) (products st))).
           cat \<leftarrow> categories st, c_show cat \<noteq> Some False,
           \<exists>p \<in> set (products st). category p = c_id cat])"
proof -
  have A: "categorySections st =
      (if trim (searchQuery st) \<noteq> [] then []
       else [(cat, categoryProducts st cat). cat \<leftarrow> categories st,
               c_show cat \<noteq> Some False, categoryProducts st cat \<noteq> []])"
    by (simp add: categorySections_def showOnlyAllProducts_def visibleCategories_def
        map_filter_sections)
  have eq: "(\<lambda>product. c_id cat = category product) = (\<lambda>p. category p = c_id cat)" for cat :: Category
    by auto
  have B: "categoryProducts st cat =
      take 8 (filter (\<lambda>p. category p = c_id cat) (products st))" for cat :: Category
    by (simp add: categoryProducts_def js_slice_0_8 eq)
  have C: "(take 8 (filter (\<lambda>p. category p = c_id cat) (products st)) \<noteq> []) =
      (\<exists>p \<in> set (products st). category p = c_id cat)" for cat :: Category
    by (auto simp: filter_empty_conv)
  show ?thesis unfolding A B C by simp
qed

theorem C8_witness:
  "trim (searchQuery searchHat) \<noteq> [] \<and> categorySections searchHat = [] \<and>
   trim (searchQuery loadedHidden) = [] \<and>
   categorySections loadedHidden = [(catShoes, [prodA])]"
proof -
  have a: "trim (searchQuery searchHat) \<noteq> []"
    by (simp add: searchHat_val strings_hat)
  have b: "trim (searchQuery loadedHidden) = []"
    by (simp add: loadedHidden_val trim_Nil)
  show ?thesis
    using a b C8_home_sections[of searchHat] C8_home_sections[of loadedHidden]
    by (simp add: loadedHidden_val example_categories)
qed

subsection \<open>The category dropdown\<close>

text \<open>
  C10. After a load the options of the dropdown are \<open>All\<close> and then the name of every
  loaded category in order, whatever its \<open>show\<close> flag. After choosing a name other than
  \<open>All\<close>, \<open>allProductsFiltered\<close> holds the loaded products whose category identifier has a
  name equal to the chosen one up to letter case, the name of an identifier being that of
  the last loaded category with the identifier. Neither depends on the \<open>show\<close> flags: with
  any other flags \<open>h\<close> the options and the filtered list are the same.
\<close>

theorem C10_category_options:
  "categoryOptions (fetchSettled lc (Resolved (Some ps) (Some cs)) st) = ''All'' # map c_name cs \<and>
   (n \<noteq> ''All'' \<longrightarrow>
      allProductsFiltered
        (selectCategoryOption lc n (fetchSettled lc (Resolved (Some ps) (Some cs)) st)) =
      filter (\<lambda>p. case map_of (rev (map (\<lambda>c. (c_id c, c_name c)) cs)) (category p) of
                    None \<Rightarrow> False
                  | Some cn \<Rightarrow> toLowerCase cn = toLowerCase n) ps) \<and>
   categoryOptions
     (fetchSettled lc (Resolved (Some ps) (Some (map (\<lambda>c. c\<lparr>c_show := h c\<rparr>) cs))) st) =
     categoryOptions (fetchSettled lc (Resolved (Some ps) (Some cs)) st) \<and>
   allProductsFiltered
     (selectCategoryOption lc n
        (fetchSettled lc (Resolved (Some ps) (Some (map (\<lambda>c. c\<lparr>c_show := h c\<rparr>) cs))) st)) =
     allProductsFiltered
       (selectCategoryOption lc n (fetchSettled lc (Resolved (Some ps) (Some cs)) st))"
  by (simp add: categoryOptions_def allProductsFiltered_def loaded_fields select_fields
      buildCatMap_show categoryMatches_def comp_def)
     (simp add: buildCatMap_map_of)

theorem C10_witness:
  "''Hats'' \<noteq> ''All'' \<and>
   categoryOptions loadedHidden = [''All'', ''Shoes'', ''Hats''] \<and>
   allProductsFiltered (selectCategoryOption codeCompare ''Hats'' loadedHidden) = [prodB]"
  using C10_category_options[of codeCompare "[prodA, prodB]" "[catShoes, catHatsHidden]"
      "mounted codeCompare" "''Hats''" c_show]
  by (simp add: loadedHidden_def example_categories toLowerCase_names)

end
